theory Spec2Isabelle
  imports Main "HOL-Library.Word"
begin

section \<open>The JNI bridge of local-whisper (whisper\_jni.cpp)\<close>

text \<open>
  The file \<^verbatim>\<open>android/app/src/main/cpp/whisper_jni.cpp\<close> holds three native methods of
  \<^verbatim>\<open>WhisperManager\<close>: \<^verbatim>\<open>whisperInit\<close>, \<^verbatim>\<open>whisperTranscribe\<close> and \<^verbatim>\<open>whisperFree\<close>.
  Each of them talks to two collaborators: the JNI environment (\<^verbatim>\<open>env->...\<close>) and the
  whisper engine (\<^verbatim>\<open>whisper_...\<close>, declared in the \<^verbatim>\<open>whisper.h\<close> of the whisper.cpp
  library). The embedding threads one explicit state, the \<open>world\<close>, through every
  statement in program order. The world holds the Java heap objects the bridge can
  reach, the native buffers currently lent out by the JVM, the engine's state, the log,
  and a chronological trace of every JNI and engine call.
\<close>

subsection \<open>Values crossing the boundary\<close>

text \<open>
  \<^verbatim>\<open>jlong\<close> is a 64-bit integer. A \<^verbatim>\<open>struct whisper_context *\<close> is modelled by its
  address on a 64-bit ABI, \<^verbatim>\<open>nullptr\<close> being address 0, so that both
  \<^verbatim>\<open>reinterpret_cast\<close>s keep the bit pattern. A \<^verbatim>\<open>jfloat\<close> is kept as the 32 bits of
  the sample: the bridge never computes with samples. C \<^verbatim>\<open>int\<close> values (the status of
  the inference call, the segment count, the loop index) are \<open>int\<close>: the only
  arithmetic on them is \<^verbatim>\<open>i++\<close> below \<^verbatim>\<open>n_segments\<close>, which cannot overflow. Native
  strings are byte lists (\<open>string\<close>); Java objects are named by references.
\<close>

type_synonym jlong = "64 word"
type_synonym ctx_ptr = "64 word"
type_synonym jfloat = "32 word"
type_synonym jobject = nat

definition ptr_to_jlong :: "ctx_ptr \<Rightarrow> jlong" where
  "ptr_to_jlong ctx = ctx"

definition jlong_to_ptr :: "jlong \<Rightarrow> ctx_ptr" where
  "jlong_to_ptr context_ptr = context_ptr"

subsection \<open>The engine's interface\<close>

datatype whisper_sampling_strategy = WHISPER_SAMPLING_GREEDY | WHISPER_SAMPLING_BEAM_SEARCH

text \<open>The fields of the two parameter structs that the bridge reads or writes.\<close>

record whisper_context_params =
  use_gpu :: bool

record whisper_full_params =
  strategy :: whisper_sampling_strategy
  n_threads :: int
  translate :: bool
  no_timestamps :: bool
  single_segment :: bool
  print_special :: bool
  print_progress :: bool
  print_realtime :: bool
  print_timestamps :: bool
  language :: string

text \<open>
  The engine itself is a parameter: one field per entry point of \<^verbatim>\<open>whisper.h\<close> that the
  bridge calls, over an arbitrary engine state \<open>'e\<close>. Construction, inference and
  destruction may change the engine state; inference receives the samples as a value
  (\<^verbatim>\<open>const float *\<close> with its length) and returns the C status; the segment count and
  the segment texts are read from the state that inference left behind.
\<close>

record 'e whisper_api =
  whisper_context_default_params :: whisper_context_params
  whisper_init_from_file_with_params ::
    "string \<Rightarrow> whisper_context_params \<Rightarrow> 'e \<Rightarrow> ctx_ptr \<times> 'e"
  whisper_full_default_params :: "whisper_sampling_strategy \<Rightarrow> whisper_full_params"
  whisper_full ::
    "ctx_ptr \<Rightarrow> whisper_full_params \<Rightarrow> jfloat list \<Rightarrow> int \<Rightarrow> 'e \<Rightarrow> int \<times> 'e"
  whisper_full_n_segments :: "ctx_ptr \<Rightarrow> 'e \<Rightarrow> int"
  whisper_full_get_segment_text :: "ctx_ptr \<Rightarrow> int \<Rightarrow> 'e \<Rightarrow> string"
  whisper_free :: "ctx_ptr \<Rightarrow> 'e \<Rightarrow> 'e"

subsection \<open>The world\<close>

datatype jni_call =
    GetStringUTFChars jobject
  | ReleaseStringUTFChars jobject
  | GetArrayLength jobject
  | GetFloatArrayElements jobject
  | ReleaseFloatArrayElements jobject int
  | NewStringUTF string

datatype engine_call =
    Context_default_params
  | Init_from_file_with_params string whisper_context_params
  | Full_default_params whisper_sampling_strategy
  | Full ctx_ptr whisper_full_params "jfloat list" int
  | Full_n_segments ctx_ptr
  | Full_get_segment_text ctx_ptr int
  | Free ctx_ptr

datatype event = Jni jni_call | Engine engine_call

datatype borrow = UTFChars jobject | FloatElements jobject

datatype log_priority = ANDROID_LOG_INFO | ANDROID_LOG_ERROR

datatype log_arg = Arg_s string | Arg_d int

type_synonym log_line = "log_priority \<times> string \<times> log_arg list"

record 'e world =
  float_arrays :: "jobject \<Rightarrow> jfloat list"
  jstrings :: "jobject \<Rightarrow> string"
  borrowed :: "borrow list"
  engine :: 'e
  logcat :: "log_line list"
  trace :: "event list"

definition emit :: "event \<Rightarrow> 'e world \<Rightarrow> 'e world" where
  "emit ev w = w\<lparr>trace := trace w @ [ev]\<rparr>"

definition LOGI :: "string \<Rightarrow> log_arg list \<Rightarrow> 'e world \<Rightarrow> 'e world" where
  "LOGI fmt args w = w\<lparr>logcat := logcat w @ [(ANDROID_LOG_INFO, fmt, args)]\<rparr>"

definition LOGE :: "string \<Rightarrow> log_arg list \<Rightarrow> 'e world \<Rightarrow> 'e world" where
  "LOGE fmt args w = w\<lparr>logcat := logcat w @ [(ANDROID_LOG_ERROR, fmt, args)]\<rparr>"

subsection \<open>JNI environment functions\<close>

text \<open>
  The references handed in by the JVM are live objects of the declared Java types, and
  the JVM has the memory for each request. \<^verbatim>\<open>GetStringUTFChars\<close> and
  \<^verbatim>\<open>GetFloatArrayElements\<close> lend a native buffer with the object's contents and record
  the loan; the matching release ends one such loan. Releasing array elements with mode
  0 writes the buffer back into the array before freeing it. \<^verbatim>\<open>NewStringUTF\<close> yields a
  new Java string, represented by the bytes it was built from.
\<close>

definition env_GetStringUTFChars :: "jobject \<Rightarrow> 'e world \<Rightarrow> string \<times> 'e world" where
  "env_GetStringUTFChars s w =
     (jstrings w s, emit (Jni (GetStringUTFChars s)) (w\<lparr>borrowed := UTFChars s # borrowed w\<rparr>))"

definition env_ReleaseStringUTFChars :: "jobject \<Rightarrow> string \<Rightarrow> 'e world \<Rightarrow> 'e world" where
  "env_ReleaseStringUTFChars s chars w =
     emit (Jni (ReleaseStringUTFChars s)) (w\<lparr>borrowed := remove1 (UTFChars s) (borrowed w)\<rparr>)"

definition env_GetArrayLength :: "jobject \<Rightarrow> 'e world \<Rightarrow> int \<times> 'e world" where
  "env_GetArrayLength a w = (int (length (float_arrays w a)), emit (Jni (GetArrayLength a)) w)"

definition env_GetFloatArrayElements :: "jobject \<Rightarrow> 'e world \<Rightarrow> jfloat list \<times> 'e world" where
  "env_GetFloatArrayElements a w =
     (float_arrays w a,
      emit (Jni (GetFloatArrayElements a)) (w\<lparr>borrowed := FloatElements a # borrowed w\<rparr>))"

definition env_ReleaseFloatArrayElements ::
  "jobject \<Rightarrow> jfloat list \<Rightarrow> int \<Rightarrow> 'e world \<Rightarrow> 'e world" where
  "env_ReleaseFloatArrayElements a elems mode w =
     emit (Jni (ReleaseFloatArrayElements a mode))
       (w\<lparr>float_arrays := (if mode = 0 \<or> mode = 1 then (float_arrays w)(a := elems)
                            else float_arrays w),
          borrowed := (if mode = 1 then borrowed w
                       else remove1 (FloatElements a) (borrowed w))\<rparr>)"

definition env_NewStringUTF :: "string \<Rightarrow> 'e world \<Rightarrow> string \<times> 'e world" where
  "env_NewStringUTF bytes w = (bytes, emit (Jni (NewStringUTF bytes)) w)"

subsection \<open>Calls into the engine\<close>

definition call_context_default_params ::
  "'e whisper_api \<Rightarrow> 'e world \<Rightarrow> whisper_context_params \<times> 'e world" where
  "call_context_default_params api w =
     (whisper_context_default_params api, emit (Engine Context_default_params) w)"

definition call_init_from_file_with_params ::
  "'e whisper_api \<Rightarrow> string \<Rightarrow> whisper_context_params \<Rightarrow> 'e world \<Rightarrow> ctx_ptr \<times> 'e world" where
  "call_init_from_file_with_params api path cparams w =
     (let (ctx, e) = whisper_init_from_file_with_params api path cparams (engine w)
      in (ctx, emit (Engine (Init_from_file_with_params path cparams)) (w\<lparr>engine := e\<rparr>)))"

definition call_full_default_params ::
  "'e whisper_api \<Rightarrow> whisper_sampling_strategy \<Rightarrow> 'e world \<Rightarrow> whisper_full_params \<times> 'e world" where
  "call_full_default_params api s w =
     (whisper_full_default_params api s, emit (Engine (Full_default_params s)) w)"

definition call_full ::
  "'e whisper_api \<Rightarrow> ctx_ptr \<Rightarrow> whisper_full_params \<Rightarrow> jfloat list \<Rightarrow> int \<Rightarrow> 'e world
     \<Rightarrow> int \<times> 'e world" where
  "call_full api ctx params samples n_samples w =
     (let (result, e) = whisper_full api ctx params samples n_samples (engine w)
      in (result, emit (Engine (Full ctx params samples n_samples)) (w\<lparr>engine := e\<rparr>)))"

definition call_full_n_segments :: "'e whisper_api \<Rightarrow> ctx_ptr \<Rightarrow> 'e world \<Rightarrow> int \<times> 'e world" where
  "call_full_n_segments api ctx w =
     (whisper_full_n_segments api ctx (engine w), emit (Engine (Full_n_segments ctx)) w)"

definition call_full_get_segment_text ::
  "'e whisper_api \<Rightarrow> ctx_ptr \<Rightarrow> int \<Rightarrow> 'e world \<Rightarrow> string \<times> 'e world" where
  "call_full_get_segment_text api ctx i w =
     (whisper_full_get_segment_text api ctx i (engine w),
      emit (Engine (Full_get_segment_text ctx i)) w)"

definition call_free :: "'e whisper_api \<Rightarrow> ctx_ptr \<Rightarrow> 'e world \<Rightarrow> 'e world" where
  "call_free api ctx w = emit (Engine (Free ctx)) (w\<lparr>engine := whisper_free api ctx (engine w)\<rparr>)"

subsection \<open>whisperInit\<close>

definition whisperInit :: "'e whisper_api \<Rightarrow> jobject \<Rightarrow> 'e world \<Rightarrow> jlong \<times> 'e world" where
  "whisperInit api model_path w =
     (let (path, w1) = env_GetStringUTFChars model_path w;
          w2 = LOGI ''Loading model from: %s'' [Arg_s path] w1;
          (cparams0, w3) = call_context_default_params api w2;
          cparams = cparams0\<lparr>use_gpu := True\<rparr>;
          (ctx, w4) = call_init_from_file_with_params api path cparams w3;
          w5 = env_ReleaseStringUTFChars model_path path w4
      in if ctx = 0 then (0, LOGE ''Failed to initialize whisper context'' [] w5)
         else (ptr_to_jlong ctx, LOGI ''Model loaded successfully'' [] w5))"

subsection \<open>whisperTranscribe\<close>

text \<open>
  The block under \<^verbatim>\<open>// Configure transcription parameters\<close>: the nine assignments
  to the struct that \<^verbatim>\<open>whisper_full_default_params\<close> returned, in source order.
\<close>

definition configure_params :: "whisper_full_params \<Rightarrow> string \<Rightarrow> whisper_full_params" where
  "configure_params params lang =
     params\<lparr>print_progress := False, print_special := False,
            print_realtime := False, print_timestamps := False,
            translate := False, single_segment := False,
            no_timestamps := True, language := lang, n_threads := 4\<rparr>"

text \<open>
  The loop \<^verbatim>\<open>for (int i = 0; i < n_segments; i++) text += segment_text\<close>, started at
  \<open>i = 0\<close> with the empty \<^verbatim>\<open>std::string\<close>.
\<close>

function collect_segments ::
  "'e whisper_api \<Rightarrow> ctx_ptr \<Rightarrow> int \<Rightarrow> int \<Rightarrow> string \<Rightarrow> 'e world \<Rightarrow> string \<times> 'e world" where
  "collect_segments api ctx n_segments i text w =
     (if i < n_segments then
        collect_segments api ctx n_segments (i + 1)
          (text @ fst (call_full_get_segment_text api ctx i w))
          (snd (call_full_get_segment_text api ctx i w))
      else (text, w))"
  by pat_completeness auto
termination
  by (relation "measure (\<lambda>(api, ctx, n_segments, i, text, w). nat (n_segments - i))") auto

declare collect_segments.simps [simp del]

definition whisperTranscribe ::
  "'e whisper_api \<Rightarrow> jlong \<Rightarrow> jobject \<Rightarrow> jobject \<Rightarrow> 'e world \<Rightarrow> string \<times> 'e world" where
  "whisperTranscribe api context_ptr samples lang_ref w =
     (if context_ptr = 0 then
        env_NewStringUTF '''' (LOGE ''Invalid context pointer'' [] w)
      else
        let ctx = jlong_to_ptr context_ptr;
            (n_samples, w1) = env_GetArrayLength samples w;
            (audio_data, w2) = env_GetFloatArrayElements samples w1;
            w3 = LOGI ''Transcribing %d samples'' [Arg_d n_samples] w2;
            (lang, w4) = env_GetStringUTFChars lang_ref w3;
            (params0, w5) = call_full_default_params api WHISPER_SAMPLING_GREEDY w4;
            params = configure_params params0 lang;
            (result, w6) = call_full api ctx params audio_data n_samples w5;
            w7 = env_ReleaseFloatArrayElements samples audio_data 0 w6;
            w8 = env_ReleaseStringUTFChars lang_ref lang w7
        in if result \<noteq> 0 then
             env_NewStringUTF '''' (LOGE ''Transcription failed with code: %d'' [Arg_d result] w8)
           else
             let (n_segments, w9) = call_full_n_segments api ctx w8;
                 (text, w10) = collect_segments api ctx n_segments 0 '''' w9;
                 w11 = LOGI ''Transcription complete: %d segments'' [Arg_d n_segments] w10
             in env_NewStringUTF text w11)"

subsection \<open>whisperFree\<close>

definition whisperFree :: "'e whisper_api \<Rightarrow> jlong \<Rightarrow> 'e world \<Rightarrow> 'e world" where
  "whisperFree api context_ptr w =
     (if context_ptr \<noteq> 0 then
        let ctx = jlong_to_ptr context_ptr
        in LOGI ''Whisper context freed'' [] (call_free api ctx w)
      else w)"

subsection \<open>Observing one call\<close>

text \<open>
  What a call added to the trace, and the two projections of a trace: the JNI calls and
  the engine calls, each in program order.
\<close>

definition events_during :: "'e world \<Rightarrow> 'e world \<Rightarrow> event list" where
  "events_during w w' = drop (length (trace w)) (trace w')"

fun jni_calls :: "event list \<Rightarrow> jni_call list" where
  "jni_calls [] = []"
| "jni_calls (Jni c # evs) = c # jni_calls evs"
| "jni_calls (Engine c # evs) = jni_calls evs"

fun engine_calls :: "event list \<Rightarrow> engine_call list" where
  "engine_calls [] = []"
| "engine_calls (Jni c # evs) = engine_calls evs"
| "engine_calls (Engine c # evs) = c # engine_calls evs"

text \<open>The engine calls that start the full inference pipeline.\<close>

fun is_inference :: "engine_call \<Rightarrow> bool" where
  "is_inference (Full ctx params samples n_samples) = True"
| "is_inference c = False"

text \<open>
  The configuration \<open>whisperTranscribe\<close> builds in world \<open>w\<close>, and the inference run
  it asks the engine for: the status and the engine state that \<^verbatim>\<open>whisper_full\<close> gives
  for the cast handle, that configuration and the contents of the sample array.
\<close>

definition transcribe_params :: "'e whisper_api \<Rightarrow> jobject \<Rightarrow> 'e world \<Rightarrow> whisper_full_params" where
  "transcribe_params api lang_ref w =
     configure_params (whisper_full_default_params api WHISPER_SAMPLING_GREEDY) (jstrings w lang_ref)"

definition inference_run ::
  "'e whisper_api \<Rightarrow> jlong \<Rightarrow> jobject \<Rightarrow> jobject \<Rightarrow> 'e world \<Rightarrow> int \<times> 'e" where
  "inference_run api context_ptr samples lang_ref w =
     whisper_full api (jlong_to_ptr context_ptr) (transcribe_params api lang_ref w)
       (float_arrays w samples) (int (length (float_arrays w samples))) (engine w)"

text \<open>
  The segments \<open>S\<^sub>1 .. S\<^sub>n\<close> a context holds in engine state \<open>e\<close>: the text the
  accessor gives for each index from 0 below the reported count.
\<close>

definition produced_segments :: "'e whisper_api \<Rightarrow> ctx_ptr \<Rightarrow> 'e \<Rightarrow> string list" where
  "produced_segments api ctx e =
     map (\<lambda>k. whisper_full_get_segment_text api ctx (int k) e)
       [0..<nat (whisper_full_n_segments api ctx e)]"

text \<open>
  What a caller of the engine can observe of one inference run started in state \<open>e\<close>:
  the status and the segments. The engine decodes deterministically at an input when a
  second run, started in the state the first one left, is observed as the first was.
\<close>

definition inference_output ::
  "'e whisper_api \<Rightarrow> ctx_ptr \<Rightarrow> whisper_full_params \<Rightarrow> jfloat list \<Rightarrow> int \<Rightarrow> 'e
     \<Rightarrow> int \<times> string list" where
  "inference_output api ctx params samples n_samples e =
     (let (result, e') = whisper_full api ctx params samples n_samples e
      in (result, produced_segments api ctx e'))"

definition deterministic_at ::
  "'e whisper_api \<Rightarrow> ctx_ptr \<Rightarrow> whisper_full_params \<Rightarrow> jfloat list \<Rightarrow> int \<Rightarrow> 'e \<Rightarrow> bool" where
  "deterministic_at api ctx params samples n_samples e =
     (inference_output api ctx params samples n_samples
        (snd (whisper_full api ctx params samples n_samples e))
      = inference_output api ctx params samples n_samples e)"

subsection \<open>A small engine for concrete runs\<close>

text \<open>
  An engine whose state is the list of segments of its one context. It loads only
  \<^verbatim>\<open>model.bin\<close>, fails inference with status \<open>-1\<close> (and keeps stale segments) for the
  language tag \<^verbatim>\<open>xx\<close>, produces no segment for an empty sample list and two segments
  otherwise.
\<close>

definition demo_api :: "string list whisper_api" where
  "demo_api =
     \<lparr>whisper_context_default_params = \<lparr>use_gpu = False\<rparr>,
      whisper_init_from_file_with_params =
        (\<lambda>path cparams e. if path = ''model.bin'' then (0x7A000010, []) else (0, e)),
      whisper_full_default_params =
        (\<lambda>s. \<lparr>strategy = s, n_threads = 2, translate = False, no_timestamps = False,
               single_segment = False, print_special = False, print_progress = True,
               print_realtime = False, print_timestamps = True, language = ''en''\<rparr>),
      whisper_full =
        (\<lambda>ctx params samples n_samples e.
           if language params = ''xx'' then (- 1, e)
           else if n_samples = 0 then (0, [])
           else (0, ['' hello'', '' world''])),
      whisper_full_n_segments = (\<lambda>ctx e. int (length e)),
      whisper_full_get_segment_text =
        (\<lambda>ctx i e. if 0 \<le> i \<and> i < int (length e) then e ! nat i else []),
      whisper_free = (\<lambda>ctx e. [])\<rparr>"

text \<open>
  A world with a two-sample array at reference 1, an empty array at every other
  reference, the strings \<^verbatim>\<open>en\<close>, \<^verbatim>\<open>xx\<close> and \<^verbatim>\<open>model.bin\<close> at references 2, 3 and
  4, one loan already outstanding, one stale segment in the engine and one earlier event.
\<close>

definition demo_world :: "string list world" where
  "demo_world =
     \<lparr>float_arrays = (\<lambda>a. if a = 1 then [0x3F800000, 0xBF000000] else []),
      jstrings = (\<lambda>s. if s = 2 then ''en'' else if s = 3 then ''xx''
                     else if s = 4 then ''model.bin'' else []),
      borrowed = [UTFChars 9],
      engine = [''stale''],
      logcat = [],
      trace = [Jni (GetStringUTFChars 9)]\<rparr>"

section \<open>Properties\<close>

subsection \<open>The three paths of whisperTranscribe\<close>

lemmas bridge_defs =
  whisperTranscribe_def whisperInit_def whisperFree_def
  env_GetStringUTFChars_def env_ReleaseStringUTFChars_def env_GetArrayLength_def
  env_GetFloatArrayElements_def env_ReleaseFloatArrayElements_def env_NewStringUTF_def
  call_context_default_params_def call_init_from_file_with_params_def
  call_full_default_params_def call_full_def call_full_n_segments_def
  call_free_def emit_def LOGI_def LOGE_def

lemma collect_segments_eq:
  "collect_segments api ctx n i acc w =
     (acc @ concat (map (\<lambda>j. whisper_full_get_segment_text api ctx j (engine w)) [i..n - 1]),
      w\<lparr>trace := trace w @ map (\<lambda>j. Engine (Full_get_segment_text ctx j)) [i..n - 1]\<rparr>)"
proof (induction api ctx n i acc w rule: collect_segments.induct)
  case (1 api ctx n i acc w)
  show ?case
  proof (cases "i < n")
    case True
    then have up: "[i..n - 1] = i # [i + 1..n - 1]"
      by (simp add: upto_rec1)
    show ?thesis
      using True "1.IH" [OF True]
      by (subst collect_segments.simps)
         (simp add: up call_full_get_segment_text_def emit_def)
  next
    case False
    then show ?thesis
      by (subst collect_segments.simps) simp
  qed
qed

lemma map_upto_nat: "map f [0..n - 1] = map (\<lambda>k. f (int k)) [0..<nat n]"
proof (cases "0 \<le> n")
  case True
  then obtain m where n: "n = int m" by (metis nat_0_le)
  have "[0..int m - 1] = map int [0..<m]"
    by (induction m) (simp_all add: upto_rec2)
  then show ?thesis by (simp add: n comp_def)
next
  case False
  then show ?thesis by simp
qed

lemma transcribe_zero:
  "whisperTranscribe api 0 samples lang_ref w =
     ('''', w\<lparr>logcat := logcat w @ [(ANDROID_LOG_ERROR, ''Invalid context pointer'', [])],
              trace := trace w @ [Jni (NewStringUTF '''')]\<rparr>)"
  by (simp add: bridge_defs)

lemma transcribe_failure:
  assumes "context_ptr \<noteq> 0"
    and "inference_run api context_ptr samples lang_ref w = (result, e)"
    and "result \<noteq> 0"
  shows "whisperTranscribe api context_ptr samples lang_ref w =
     ('''', w\<lparr>engine := e,
              logcat := logcat w @
                [(ANDROID_LOG_INFO, ''Transcribing %d samples'',
                  [Arg_d (int (length (float_arrays w samples)))]),
                 (ANDROID_LOG_ERROR, ''Transcription failed with code: %d'', [Arg_d result])],
              trace := trace w @
                [Jni (GetArrayLength samples), Jni (GetFloatArrayElements samples),
                 Jni (GetStringUTFChars lang_ref),
                 Engine (Full_default_params WHISPER_SAMPLING_GREEDY),
                 Engine (Full (jlong_to_ptr context_ptr) (transcribe_params api lang_ref w)
                           (float_arrays w samples) (int (length (float_arrays w samples)))),
                 Jni (ReleaseFloatArrayElements samples 0),
                 Jni (ReleaseStringUTFChars lang_ref),
                 Jni (NewStringUTF '''')]\<rparr>)"
  using assms
  by (simp add: bridge_defs inference_run_def transcribe_params_def Let_def)

lemma transcribe_success:
  assumes "context_ptr \<noteq> 0"
    and "inference_run api context_ptr samples lang_ref w = (0, e)"
  shows "whisperTranscribe api context_ptr samples lang_ref w =
     (concat (produced_segments api (jlong_to_ptr context_ptr) e),
      w\<lparr>engine := e,
        logcat := logcat w @
          [(ANDROID_LOG_INFO, ''Transcribing %d samples'',
            [Arg_d (int (length (float_arrays w samples)))]),
           (ANDROID_LOG_INFO, ''Transcription complete: %d segments'',
            [Arg_d (whisper_full_n_segments api (jlong_to_ptr context_ptr) e)])],
        trace := trace w @
          [Jni (GetArrayLength samples), Jni (GetFloatArrayElements samples),
           Jni (GetStringUTFChars lang_ref),
           Engine (Full_default_params WHISPER_SAMPLING_GREEDY),
           Engine (Full (jlong_to_ptr context_ptr) (transcribe_params api lang_ref w)
                     (float_arrays w samples) (int (length (float_arrays w samples)))),
           Jni (ReleaseFloatArrayElements samples 0),
           Jni (ReleaseStringUTFChars lang_ref),
           Engine (Full_n_segments (jlong_to_ptr context_ptr))] @
          map (\<lambda>k. Engine (Full_get_segment_text (jlong_to_ptr context_ptr) (int k)))
            [0..<nat (whisper_full_n_segments api (jlong_to_ptr context_ptr) e)] @
          [Jni (NewStringUTF (concat (produced_segments api (jlong_to_ptr context_ptr) e)))]\<rparr>)"
  using assms
  by (simp add: bridge_defs inference_run_def transcribe_params_def Let_def
        collect_segments_eq map_upto_nat produced_segments_def)

lemma jni_calls_append: "jni_calls (xs @ ys) = jni_calls xs @ jni_calls ys"
  by (induction xs rule: jni_calls.induct) simp_all

lemma engine_calls_append: "engine_calls (xs @ ys) = engine_calls xs @ engine_calls ys"
  by (induction xs rule: engine_calls.induct) simp_all

lemma jni_calls_map_Engine: "jni_calls (map (\<lambda>k. Engine (f k)) ks) = []"
  by (induction ks) simp_all

lemma engine_calls_map_Engine: "engine_calls (map (\<lambda>k. Engine (f k)) ks) = map f ks"
  by (induction ks) simp_all

lemma transcribe_cases:
  obtains (zero) "context_ptr = 0"
  | (failure) result e where "context_ptr \<noteq> 0"
      "inference_run api context_ptr samples lang_ref w = (result, e)" "result \<noteq> 0"
  | (success) e where "context_ptr \<noteq> 0"
      "inference_run api context_ptr samples lang_ref w = (0, e)"
  by (cases "inference_run api context_ptr samples lang_ref w") force

lemma no_inference_among_segment_reads:
  "filter is_inference (map (Full_get_segment_text ctx) ks) = []"
  by (induction ks) simp_all

lemma transcribe_frame:
  "float_arrays (snd (whisperTranscribe api context_ptr samples lang_ref w)) = float_arrays w"
  "jstrings (snd (whisperTranscribe api context_ptr samples lang_ref w)) = jstrings w"
proof -
  show "float_arrays (snd (whisperTranscribe api context_ptr samples lang_ref w)) = float_arrays w"
  proof (cases rule: transcribe_cases [where context_ptr = context_ptr and api = api and samples = samples and lang_ref = lang_ref and w = w])
    case zero
    then show ?thesis by (simp add: transcribe_zero)
  next
    case (failure result e)
    from transcribe_failure [OF this] show ?thesis by simp
  next
    case (success e)
    from transcribe_success [OF this] show ?thesis by simp
  qed
  show "jstrings (snd (whisperTranscribe api context_ptr samples lang_ref w)) = jstrings w"
  proof (cases rule: transcribe_cases [where context_ptr = context_ptr and api = api and samples = samples and lang_ref = lang_ref and w = w])
    case zero
    then show ?thesis by (simp add: transcribe_zero)
  next
    case (failure result e)
    from transcribe_failure [OF this] show ?thesis by simp
  next
    case (success e)
    from transcribe_success [OF this] show ?thesis by simp
  qed
qed

lemma transcribe_engine_after:
  "context_ptr \<noteq> 0 \<Longrightarrow>
   engine (snd (whisperTranscribe api context_ptr samples lang_ref w))
     = snd (inference_run api context_ptr samples lang_ref w)"
  by (cases rule: transcribe_cases [where context_ptr = context_ptr and api = api and samples = samples and lang_ref = lang_ref and w = w])
     (simp_all add: transcribe_failure transcribe_success)

lemma transcribe_result_of_output:
  "context_ptr \<noteq> 0 \<Longrightarrow>
   fst (whisperTranscribe api context_ptr samples lang_ref w)
     = (let (result, segs) = inference_output api (jlong_to_ptr context_ptr)
            (transcribe_params api lang_ref w) (float_arrays w samples)
            (int (length (float_arrays w samples))) (engine w)
        in if result \<noteq> 0 then '''' else concat segs)"
  by (cases rule: transcribe_cases [where context_ptr = context_ptr and api = api and samples = samples and lang_ref = lang_ref and w = w])
     (simp_all add: transcribe_failure transcribe_success inference_output_def
        inference_run_def [symmetric])

lemmas demo_defs = demo_api_def demo_world_def inference_run_def transcribe_params_def
  configure_params_def jlong_to_ptr_def ptr_to_jlong_def

lemma upt_0_2: "[0..<2] = [0, Suc 0]"
  by (simp add: numeral_2_eq_2 upt_rec)

subsection \<open>The claims\<close>

text \<open>
  Claim C1. For a non-zero handle and an inference run that the engine reports as
  successful (status 0), leaving state \<open>e\<close>, the text \<open>whisperTranscribe\<close> returns is
  the concatenation of the segment texts of \<open>e\<close> for the indices 0, 1, ... below the
  segment count, in that order, with nothing between them. A count of zero or below
  gives the empty text.
\<close>

theorem transcribe_concatenates_segments:
  assumes "context_ptr \<noteq> 0"
    and "inference_run api context_ptr samples lang_ref w = (0, e)"
  shows "fst (whisperTranscribe api context_ptr samples lang_ref w) =
     concat (map (\<lambda>k. whisper_full_get_segment_text api (jlong_to_ptr context_ptr) (int k) e)
               [0..<nat (whisper_full_n_segments api (jlong_to_ptr context_ptr) e)])"
  using transcribe_success [OF assms] by (simp add: produced_segments_def)

theorem transcribe_concatenates_segments_witness:
  "(0x7A000010 :: jlong) \<noteq> 0
   \<and> inference_run demo_api 0x7A000010 1 2 demo_world = (0, ['' hello'', '' world''])
   \<and> fst (whisperTranscribe demo_api 0x7A000010 1 2 demo_world) = '' hello world''"
proof -
  have h: "(0x7A000010 :: jlong) \<noteq> 0" by simp
  have run: "inference_run demo_api 0x7A000010 1 2 demo_world = (0, ['' hello'', '' world''])"
    by (simp add: demo_defs)
  show ?thesis
    using h run transcribe_concatenates_segments [OF h run]
    by (simp add: demo_api_def jlong_to_ptr_def upt_0_2)
qed

text \<open>
  Claim C2. With the zero handle, whatever the sample array and the language string,
  \<open>whisperTranscribe\<close> returns the empty text, makes no engine call at all and leaves
  the engine state as it was.
\<close>

theorem transcribe_zero_handle:
  "fst (whisperTranscribe api 0 samples lang_ref w) = ''''
   \<and> engine_calls (events_during w (snd (whisperTranscribe api 0 samples lang_ref w))) = []
   \<and> engine (snd (whisperTranscribe api 0 samples lang_ref w)) = engine w"
  by (simp add: transcribe_zero events_during_def)

theorem transcribe_zero_handle_witness:
  "fst (whisperTranscribe demo_api 0 1 2 demo_world) = ''''
   \<and> engine_calls (events_during demo_world (snd (whisperTranscribe demo_api 0 1 2 demo_world))) = []
   \<and> engine (snd (whisperTranscribe demo_api 0 1 2 demo_world)) = [''stale'']"
  using transcribe_zero_handle [where api = demo_api and samples = 1 and lang_ref = 2 and w = demo_world]
  by (simp add: demo_defs)

text \<open>
  Claim C3. For a non-zero handle, when the inference call returns a non-zero status,
  \<open>whisperTranscribe\<close> returns the empty text whatever the status is, and the only
  engine calls it makes are the request for the default parameters and the inference
  call itself: neither the segment count nor any segment text is read.
\<close>

theorem transcribe_engine_failure:
  assumes "context_ptr \<noteq> 0"
    and "fst (inference_run api context_ptr samples lang_ref w) \<noteq> 0"
  shows "fst (whisperTranscribe api context_ptr samples lang_ref w) = ''''
   \<and> engine_calls (events_during w (snd (whisperTranscribe api context_ptr samples lang_ref w)))
       = [Full_default_params WHISPER_SAMPLING_GREEDY,
          Full (jlong_to_ptr context_ptr) (transcribe_params api lang_ref w)
            (float_arrays w samples) (int (length (float_arrays w samples)))]"
proof -
  obtain result e where run: "inference_run api context_ptr samples lang_ref w = (result, e)"
    by (cases "inference_run api context_ptr samples lang_ref w")
  with assms(2) have "result \<noteq> 0" by simp
  from transcribe_failure [OF assms(1) run this] show ?thesis
    by (simp add: events_during_def)
qed

theorem transcribe_engine_failure_witness:
  "(0x7A000010 :: jlong) \<noteq> 0
   \<and> fst (inference_run demo_api 0x7A000010 1 3 demo_world) = - 1
   \<and> fst (whisperTranscribe demo_api 0x7A000010 1 3 demo_world) = ''''
   \<and> engine_calls
        (events_during demo_world (snd (whisperTranscribe demo_api 0x7A000010 1 3 demo_world)))
       = [Full_default_params WHISPER_SAMPLING_GREEDY,
          Full 0x7A000010
            \<lparr>strategy = WHISPER_SAMPLING_GREEDY, n_threads = 4, translate = False,
             no_timestamps = True, single_segment = False, print_special = False,
             print_progress = False, print_realtime = False, print_timestamps = False,
             language = ''xx''\<rparr>
            [0x3F800000, 0xBF000000] 2]"
proof -
  have h: "(0x7A000010 :: jlong) \<noteq> 0" by simp
  have run: "fst (inference_run demo_api 0x7A000010 1 3 demo_world) = - 1"
    by (simp add: demo_defs)
  then have nz: "fst (inference_run demo_api 0x7A000010 1 3 demo_world) \<noteq> 0" by simp
  show ?thesis
    using h run transcribe_engine_failure [OF h nz]
    by (simp add: demo_defs)
qed

text \<open>
  Claim C4. The handle \<open>whisperInit\<close> returns is the address the engine's constructor
  returned for the model path (with \<^verbatim>\<open>use_gpu\<close> set), so it is zero exactly when the
  engine returned the null context and non-zero otherwise. On either path the bridge
  holds nothing afterwards: the loan of the path string is ended and the Java objects
  are as before.
\<close>

theorem whisperInit_zero_iff_engine_fails:
  "fst (whisperInit api model_path w) =
     ptr_to_jlong (fst (whisper_init_from_file_with_params api (jstrings w model_path)
        ((whisper_context_default_params api)\<lparr>use_gpu := True\<rparr>) (engine w)))
   \<and> (fst (whisperInit api model_path w) = 0 \<longleftrightarrow>
        fst (whisper_init_from_file_with_params api (jstrings w model_path)
          ((whisper_context_default_params api)\<lparr>use_gpu := True\<rparr>) (engine w)) = 0)
   \<and> borrowed (snd (whisperInit api model_path w)) = borrowed w
   \<and> float_arrays (snd (whisperInit api model_path w)) = float_arrays w
   \<and> jstrings (snd (whisperInit api model_path w)) = jstrings w"
  by (simp add: bridge_defs ptr_to_jlong_def Let_def case_prod_beta)

theorem whisperInit_zero_iff_engine_fails_witness:
  "fst (whisperInit demo_api 4 demo_world) = 0x7A000010
   \<and> fst (whisperInit demo_api 2 demo_world) = 0
   \<and> borrowed (snd (whisperInit demo_api 2 demo_world)) = [UTFChars 9]"
  using whisperInit_zero_iff_engine_fails [where api = demo_api and model_path = 4 and w = demo_world]
    whisperInit_zero_iff_engine_fails [where api = demo_api and model_path = 2 and w = demo_world]
  by (simp add: demo_defs)

text \<open>
  Claim C5. For a non-zero handle, \<open>whisperTranscribe\<close> starts the engine's full
  inference pipeline exactly once, on the cast handle, the contents and length of the
  sample array, and the configuration \<open>transcribe_params\<close>. The call is really made: the
  engine state at return is the state \<^verbatim>\<open>whisper_full\<close> produced from the state at entry
  for exactly these arguments, and the returned text is decided by the status and the
  state of that run. Provided the engine's default parameters for the greedy strategy
  carry that strategy, the configuration is: greedy decoding, translation off,
  single-segment off, timestamps suppressed, 4 threads, all four print flags off, and
  the caller's language tag.
\<close>

theorem transcribe_fixed_policy:
  assumes "context_ptr \<noteq> 0"
    and "strategy (whisper_full_default_params api WHISPER_SAMPLING_GREEDY) = WHISPER_SAMPLING_GREEDY"
  shows "filter is_inference (engine_calls
           (events_during w (snd (whisperTranscribe api context_ptr samples lang_ref w))))
       = [Full (jlong_to_ptr context_ptr) (transcribe_params api lang_ref w)
            (float_arrays w samples) (int (length (float_arrays w samples)))]
   \<and> engine (snd (whisperTranscribe api context_ptr samples lang_ref w))
       = snd (whisper_full api (jlong_to_ptr context_ptr) (transcribe_params api lang_ref w)
                (float_arrays w samples) (int (length (float_arrays w samples))) (engine w))
   \<and> fst (whisperTranscribe api context_ptr samples lang_ref w)
       = (if fst (whisper_full api (jlong_to_ptr context_ptr) (transcribe_params api lang_ref w)
                    (float_arrays w samples) (int (length (float_arrays w samples))) (engine w))
             \<noteq> 0
          then ''''
          else concat (produced_segments api (jlong_to_ptr context_ptr)
                 (snd (whisper_full api (jlong_to_ptr context_ptr)
                         (transcribe_params api lang_ref w) (float_arrays w samples)
                         (int (length (float_arrays w samples))) (engine w)))))
   \<and> transcribe_params api lang_ref w =
       \<lparr>strategy = WHISPER_SAMPLING_GREEDY, n_threads = 4, translate = False,
        no_timestamps = True, single_segment = False, print_special = False,
        print_progress = False, print_realtime = False, print_timestamps = False,
        language = jstrings w lang_ref\<rparr>"
proof -
  have calls: "filter is_inference (engine_calls
           (events_during w (snd (whisperTranscribe api context_ptr samples lang_ref w))))
       = [Full (jlong_to_ptr context_ptr) (transcribe_params api lang_ref w)
            (float_arrays w samples) (int (length (float_arrays w samples)))]"
  proof (cases rule: transcribe_cases [where context_ptr = context_ptr and api = api and samples = samples and lang_ref = lang_ref and w = w])
    case zero
    with assms(1) show ?thesis by simp
  next
    case (failure result e)
    from transcribe_failure [OF this] show ?thesis
      by (simp add: events_during_def)
  next
    case (success e)
    from transcribe_success [OF this] show ?thesis
      by (simp add: events_during_def engine_calls_append engine_calls_map_Engine
            no_inference_among_segment_reads comp_def)
  qed
  have state: "engine (snd (whisperTranscribe api context_ptr samples lang_ref w))
       = snd (whisper_full api (jlong_to_ptr context_ptr) (transcribe_params api lang_ref w)
                (float_arrays w samples) (int (length (float_arrays w samples))) (engine w))"
    using transcribe_engine_after [OF assms(1)] by (simp add: inference_run_def)
  have result: "fst (whisperTranscribe api context_ptr samples lang_ref w)
       = (if fst (whisper_full api (jlong_to_ptr context_ptr) (transcribe_params api lang_ref w)
                    (float_arrays w samples) (int (length (float_arrays w samples))) (engine w))
             \<noteq> 0
          then ''''
          else concat (produced_segments api (jlong_to_ptr context_ptr)
                 (snd (whisper_full api (jlong_to_ptr context_ptr)
                         (transcribe_params api lang_ref w) (float_arrays w samples)
                         (int (length (float_arrays w samples))) (engine w)))))"
    by (simp add: transcribe_result_of_output [OF assms(1)] inference_output_def
          case_prod_beta)
  have fields: "transcribe_params api lang_ref w =
       \<lparr>strategy = WHISPER_SAMPLING_GREEDY, n_threads = 4, translate = False,
        no_timestamps = True, single_segment = False, print_special = False,
        print_progress = False, print_realtime = False, print_timestamps = False,
        language = jstrings w lang_ref\<rparr>"
    using assms(2) by (simp add: transcribe_params_def configure_params_def)
  from calls state result fields show ?thesis by simp
qed

theorem transcribe_fixed_policy_witness:
  "(0x7A000010 :: jlong) \<noteq> 0
   \<and> strategy (whisper_full_default_params demo_api WHISPER_SAMPLING_GREEDY)
       = WHISPER_SAMPLING_GREEDY
   \<and> filter is_inference (engine_calls
        (events_during demo_world (snd (whisperTranscribe demo_api 0x7A000010 1 2 demo_world))))
       = [Full 0x7A000010
            \<lparr>strategy = WHISPER_SAMPLING_GREEDY, n_threads = 4, translate = False,
             no_timestamps = True, single_segment = False, print_special = False,
             print_progress = False, print_realtime = False, print_timestamps = False,
             language = ''en''\<rparr>
            [0x3F800000, 0xBF000000] 2]
   \<and> engine demo_world = [''stale'']
   \<and> engine (snd (whisperTranscribe demo_api 0x7A000010 1 2 demo_world))
       = ['' hello'', '' world'']
   \<and> fst (whisperTranscribe demo_api 0x7A000010 1 2 demo_world) = '' hello world''"
proof -
  have h: "(0x7A000010 :: jlong) \<noteq> 0" by simp
  have g: "strategy (whisper_full_default_params demo_api WHISPER_SAMPLING_GREEDY)
       = WHISPER_SAMPLING_GREEDY"
    by (simp add: demo_defs)
  show ?thesis
    using h g transcribe_fixed_policy [OF h g, where samples = 1 and lang_ref = 2 and w = demo_world]
    by (simp add: demo_defs produced_segments_def upt_0_2)
qed

text \<open>
  Claim C6. \<open>whisperFree\<close> with the zero handle returns the world unchanged (no call,
  no log line). With a non-zero handle it adds exactly one event to the trace, the
  engine's destruction call on the cast handle, and the engine state is what that one
  call made of it.
\<close>

theorem whisperFree_zero_noop_nonzero_once:
  "whisperFree api 0 w = w
   \<and> (context_ptr \<noteq> 0 \<longrightarrow>
        events_during w (whisperFree api context_ptr w) = [Engine (Free (jlong_to_ptr context_ptr))]
        \<and> engine (whisperFree api context_ptr w)
            = whisper_free api (jlong_to_ptr context_ptr) (engine w))"
  by (simp add: bridge_defs events_during_def Let_def)

theorem whisperFree_zero_noop_nonzero_once_witness:
  "whisperFree demo_api 0 demo_world = demo_world
   \<and> (0x7A000010 :: jlong) \<noteq> 0
   \<and> events_during demo_world (whisperFree demo_api 0x7A000010 demo_world)
       = [Engine (Free 0x7A000010)]
   \<and> engine (whisperFree demo_api 0x7A000010 demo_world) = []"
  using whisperFree_zero_noop_nonzero_once [where api = demo_api and w = demo_world and context_ptr = "0x7A000010"]
  by (simp add: demo_defs)

text \<open>
  Claim C7. For a non-zero handle, on the failure return and on the success return
  alike, the JNI calls of \<open>whisperTranscribe\<close> are, in order: the array length, the
  loan of the sample buffer, the loan of the language characters, the release of the
  sample buffer, the release of the language characters, and only then the creation of
  the returned string. The loans outstanding at return are those outstanding at entry.
\<close>

theorem transcribe_releases_borrows:
  assumes "context_ptr \<noteq> 0"
  shows "jni_calls (events_during w (snd (whisperTranscribe api context_ptr samples lang_ref w)))
       = [GetArrayLength samples, GetFloatArrayElements samples, GetStringUTFChars lang_ref,
          ReleaseFloatArrayElements samples 0, ReleaseStringUTFChars lang_ref,
          NewStringUTF (fst (whisperTranscribe api context_ptr samples lang_ref w))]
   \<and> borrowed (snd (whisperTranscribe api context_ptr samples lang_ref w)) = borrowed w"
proof (cases rule: transcribe_cases [where context_ptr = context_ptr and api = api and samples = samples and lang_ref = lang_ref and w = w])
  case zero
  with assms show ?thesis by simp
next
  case (failure result e)
  from transcribe_failure [OF this] show ?thesis
    by (simp add: events_during_def)
next
  case (success e)
  from transcribe_success [OF this] show ?thesis
    by (simp add: events_during_def jni_calls_append jni_calls_map_Engine)
qed

theorem transcribe_releases_borrows_witness:
  "(0x7A000010 :: jlong) \<noteq> 0
   \<and> jni_calls
        (events_during demo_world (snd (whisperTranscribe demo_api 0x7A000010 1 3 demo_world)))
       = [GetArrayLength 1, GetFloatArrayElements 1, GetStringUTFChars 3,
          ReleaseFloatArrayElements 1 0, ReleaseStringUTFChars 3,
          NewStringUTF (fst (whisperTranscribe demo_api 0x7A000010 1 3 demo_world))]
   \<and> borrowed (snd (whisperTranscribe demo_api 0x7A000010 1 3 demo_world)) = [UTFChars 9]"
proof -
  have h: "(0x7A000010 :: jlong) \<noteq> 0" by simp
  show ?thesis
    using h transcribe_releases_borrows [OF h, where w = demo_world and api = demo_api and samples = 1 and lang_ref = 3]
    by (simp add: demo_defs)
qed

text \<open>
  Claim C8. If the engine decodes deterministically at the input of the call, then a
  second \<open>whisperTranscribe\<close> with the same handle, array and language string, started
  in the world the first call left, returns the same transcript as the first.
\<close>

theorem transcribe_twice_same_transcript:
  assumes "deterministic_at api (jlong_to_ptr context_ptr) (transcribe_params api lang_ref w)
             (float_arrays w samples) (int (length (float_arrays w samples))) (engine w)"
  shows "fst (whisperTranscribe api context_ptr samples lang_ref
                (snd (whisperTranscribe api context_ptr samples lang_ref w)))
       = fst (whisperTranscribe api context_ptr samples lang_ref w)"
proof (cases "context_ptr = 0")
  case True
  then show ?thesis by (simp add: transcribe_zero)
next
  case False
  let ?w1 = "snd (whisperTranscribe api context_ptr samples lang_ref w)"
  have p: "transcribe_params api lang_ref ?w1 = transcribe_params api lang_ref w"
    by (simp add: transcribe_params_def transcribe_frame)
  have e: "engine ?w1 = snd (whisper_full api (jlong_to_ptr context_ptr)
             (transcribe_params api lang_ref w) (float_arrays w samples)
             (int (length (float_arrays w samples))) (engine w))"
    using transcribe_engine_after [OF False] by (simp add: inference_run_def)
  show ?thesis
    using assms
    by (simp add: transcribe_result_of_output [OF False] p e transcribe_frame
          deterministic_at_def)
qed

theorem transcribe_twice_same_transcript_witness:
  "deterministic_at demo_api 0x7A000010 (transcribe_params demo_api 2 demo_world)
     [0x3F800000, 0xBF000000] 2 [''stale'']
   \<and> fst (whisperTranscribe demo_api 0x7A000010 1 2
            (snd (whisperTranscribe demo_api 0x7A000010 1 2 demo_world)))
       = fst (whisperTranscribe demo_api 0x7A000010 1 2 demo_world)"
proof -
  have d: "deterministic_at demo_api (jlong_to_ptr 0x7A000010)
     (transcribe_params demo_api 2 demo_world) (float_arrays demo_world 1)
     (int (length (float_arrays demo_world 1))) (engine demo_world)"
    by (simp add: deterministic_at_def inference_output_def produced_segments_def demo_defs)
  show ?thesis
    using d transcribe_twice_same_transcript [OF d]
    by (simp add: demo_world_def jlong_to_ptr_def)
qed

text \<open>
  Claim C9. The empty transcript is returned in three different situations: the zero
  handle, an inference run with a non-zero status, and a successful run that reports
  zero segments. The returned text alone does not tell them apart.
\<close>

theorem empty_transcript_is_ambiguous:
  assumes "context_ptr = 0
     \<or> fst (inference_run api context_ptr samples lang_ref w) \<noteq> 0
     \<or> (fst (inference_run api context_ptr samples lang_ref w) = 0
        \<and> whisper_full_n_segments api (jlong_to_ptr context_ptr)
            (snd (inference_run api context_ptr samples lang_ref w)) = 0)"
  shows "fst (whisperTranscribe api context_ptr samples lang_ref w) = ''''"
proof (cases rule: transcribe_cases [where context_ptr = context_ptr and api = api and samples = samples and lang_ref = lang_ref and w = w])
  case zero
  then show ?thesis by (simp add: transcribe_zero)
next
  case (failure result e)
  from transcribe_failure [OF this] show ?thesis by simp
next
  case (success e)
  with assms have "whisper_full_n_segments api (jlong_to_ptr context_ptr) e = 0" by simp
  with transcribe_success [OF success] show ?thesis
    by (simp add: produced_segments_def)
qed

theorem empty_transcript_is_ambiguous_witness:
  "fst (whisperTranscribe demo_api 0 1 2 demo_world) = ''''
   \<and> fst (inference_run demo_api 0x7A000010 1 3 demo_world) \<noteq> 0
   \<and> fst (whisperTranscribe demo_api 0x7A000010 1 3 demo_world) = ''''
   \<and> fst (inference_run demo_api 0x7A000010 5 2 demo_world) = 0
   \<and> whisper_full_n_segments demo_api 0x7A000010
        (snd (inference_run demo_api 0x7A000010 5 2 demo_world)) = 0
   \<and> fst (whisperTranscribe demo_api 0x7A000010 5 2 demo_world) = ''''"
proof -
  have f: "fst (inference_run demo_api 0x7A000010 1 3 demo_world) \<noteq> 0"
    by (simp add: demo_defs)
  have s: "fst (inference_run demo_api 0x7A000010 5 2 demo_world) = 0
     \<and> whisper_full_n_segments demo_api (jlong_to_ptr 0x7A000010)
        (snd (inference_run demo_api 0x7A000010 5 2 demo_world)) = 0"
    by (simp add: demo_defs)
  show ?thesis
    using f s
      empty_transcript_is_ambiguous [where context_ptr = 0 and api = demo_api and samples = 1 and lang_ref = 2 and w = demo_world]
      empty_transcript_is_ambiguous [where context_ptr = "0x7A000010" and api = demo_api and samples = 1 and lang_ref = 3 and w = demo_world]
      empty_transcript_is_ambiguous [where context_ptr = "0x7A000010" and api = demo_api and samples = 5 and lang_ref = 2 and w = demo_world]
    by (simp add: jlong_to_ptr_def)
qed

text \<open>
  Claim C10. After \<open>whisperTranscribe\<close>, on every path, the sample array and the
  language string have the contents they had before; indeed every float array and
  every string of the Java heap has.
\<close>

theorem transcribe_leaves_inputs_unchanged:
  "float_arrays (snd (whisperTranscribe api context_ptr samples lang_ref w)) samples
     = float_arrays w samples
   \<and> jstrings (snd (whisperTranscribe api context_ptr samples lang_ref w)) lang_ref
     = jstrings w lang_ref
   \<and> float_arrays (snd (whisperTranscribe api context_ptr samples lang_ref w)) = float_arrays w
   \<and> jstrings (snd (whisperTranscribe api context_ptr samples lang_ref w)) = jstrings w"
  by (simp add: transcribe_frame)

theorem transcribe_leaves_inputs_unchanged_witness:
  "float_arrays (snd (whisperTranscribe demo_api 0x7A000010 1 2 demo_world)) 1
     = [0x3F800000, 0xBF000000]
   \<and> jstrings (snd (whisperTranscribe demo_api 0x7A000010 1 2 demo_world)) 2 = ''en''"
  using transcribe_leaves_inputs_unchanged [where api = demo_api and context_ptr = "0x7A000010" and samples = 1 and lang_ref = 2 and w = demo_world]
  by (simp add: demo_defs)

end
